theory Spec2Isabelle
  imports Main
begin

section \<open>Characters, strings and tokens\<close>

text \<open>
  The parser iterates over its input with \<^verbatim>\<open>for (const char of input)\<close>, that is, code
  point by code point. A character is modelled by its code point and a string by the list
  of the code points that the string iterator yields.
\<close>

type_synonym codepoint = nat
type_synonym jstring = "codepoint list"

definition js :: "string \<Rightarrow> jstring" where
  "js s = map of_char s"

definition OR :: jstring where "OR = [0x2228]"
definition AND' :: jstring where "AND' = [0x2227]"
definition NOT' :: jstring where "NOT' = [0xAC]"
definition IMPLIES :: jstring where "IMPLIES = [0x2192]"
definition IFF :: jstring where "IFF = [0x2194]"
definition CONVERSE :: jstring where "CONVERSE = [0x2190]"
definition LPAREN :: jstring where "LPAREN = [0x28]"
definition RPAREN :: jstring where "RPAREN = [0x29]"

definition BASE_OPERATORS :: "jstring list" where
  "BASE_OPERATORS = [OR, AND', NOT', IMPLIES, IFF, CONVERSE, LPAREN, RPAREN]"

definition EXTRA_OPERATORS :: "(jstring \<times> jstring) list" where
  "EXTRA_OPERATORS =
     [(js ''or'', OR), (js ''and'', AND'), (js ''not'', NOT'),
      (js ''implies'', IMPLIES), (js ''impl'', IMPLIES), (js ''->'', IMPLIES),
      (js ''<->'', IFF), (js ''=='', IFF), (js ''<-'', CONVERSE)]"

text \<open>
  A token is an object with a \<^verbatim>\<open>type\<close> field (\<^verbatim>\<open>'op'\<close>, \<^verbatim>\<open>'sp'\<close> or \<^verbatim>\<open>'str'\<close>) and, for the
  first and the last, a \<^verbatim>\<open>str\<close> field.
\<close>

datatype token = Op jstring | Sp | Str jstring

fun is_op :: "token \<Rightarrow> bool" where
  "is_op (Op s) = True"
| "is_op t = False"

fun is_str :: "token \<Rightarrow> bool" where
  "is_str (Str s) = True"
| "is_str t = False"

fun str :: "token \<Rightarrow> jstring" where
  "str (Op s) = s"
| "str (Str s) = s"
| "str Sp = []"

text \<open>The characters matched by the regular expression \<^verbatim>\<open>/\s/\<close>.\<close>

definition is_space :: "codepoint \<Rightarrow> bool" where
  "is_space c \<longleftrightarrow>
     c \<in> set [0x9, 0xA, 0xB, 0xC, 0xD, 0x20, 0xA0, 0x1680, 0x2028, 0x2029, 0x202F,
       0x205F, 0x3000, 0xFEFF] \<or> (0x2000 \<le> c \<and> c \<le> 0x200A)"

text \<open>
  \<^verbatim>\<open>toLowerCase\<close> is used only to look a string up among the keys of
  \<^verbatim>\<open>EXTRA_OPERATORS\<close>, which are ASCII. The code points whose lower case contains an ASCII
  character are the letters A to Z, the Kelvin sign and the dotted capital I; the lower
  case of every other code point lies outside ASCII, as the code point itself does, so
  it is left in place.
\<close>

definition lower_codepoint :: "codepoint \<Rightarrow> jstring" where
  "lower_codepoint c =
     (if 0x41 \<le> c \<and> c \<le> 0x5A then [c + 0x20]
      else if c = 0x212A then [0x6B]
      else if c = 0x130 then [0x69, 0x307]
      else [c])"

definition toLowerCase :: "jstring \<Rightarrow> jstring" where
  "toLowerCase s = concat (map lower_codepoint s)"

section \<open>Tokenizer\<close>

text \<open>The body of the loop over the characters of the input.\<close>

definition scan_char :: "token list \<Rightarrow> codepoint \<Rightarrow> token list" where
  "scan_char tokens char =
     (if [char] \<in> set BASE_OPERATORS then tokens @ [Op [char]]
      else if is_space char then
        (if tokens = [] \<or> last tokens \<noteq> Sp then tokens @ [Sp] else tokens)
      else
        (if tokens \<noteq> [] \<and> is_str (last tokens)
         then butlast tokens @ [Str (str (last tokens) @ [char])]
         else tokens @ [Str [char]]))"

definition scan :: "jstring \<Rightarrow> token list" where
  "scan input = foldl scan_char [] input"

definition resolve_alias :: "token \<Rightarrow> token" where
  "resolve_alias tok =
     (if is_str tok \<and> toLowerCase (str tok) \<in> set (map fst EXTRA_OPERATORS)
      then Op (the (map_of EXTRA_OPERATORS (toLowerCase (str tok))))
      else tok)"

definition tokenise :: "jstring \<Rightarrow> token list" where
  "tokenise input = map resolve_alias (filter (\<lambda>tok. tok \<noteq> Sp) (scan input))"

section \<open>Errors\<close>

text \<open>
  The source signals a failure by throwing a string. Reading a property of
  \<^verbatim>\<open>undefined\<close> is the only other way for the pipeline to fail: the run-time system
  throws a \<^verbatim>\<open>TypeError\<close>. The promise returned by \<^verbatim>\<open>parse\<close> is rejected with the value
  thrown.
\<close>

datatype error = Thrown string | TypeError

section \<open>Grouper\<close>

text \<open>
  The nested structure is an array whose elements are tokens or arrays; the unary fuser
  may store \<^verbatim>\<open>undefined\<close> in it.
\<close>

datatype node = Tok token | Grp "node list" | Undefined

fun isArray :: "node \<Rightarrow> bool" where
  "isArray (Grp g) = True"
| "isArray n = False"

function push_with_depth :: "node list \<Rightarrow> node \<Rightarrow> int \<Rightarrow> error + node list" where
  "push_with_depth tree obj depth =
     (if depth = 0 then Inr (tree @ [obj])
      else if depth < 0 then Inl (Thrown ''cannot push with negative depth'')
      else
        (let tree' = (if tree = [] \<or> \<not> isArray (last tree) then tree @ [Grp []] else tree)
         in case last tree' of
              Grp sub \<Rightarrow>
                (case push_with_depth sub obj (depth - 1) of
                   Inl e \<Rightarrow> Inl e
                 | Inr sub' \<Rightarrow> Inr (butlast tree' @ [Grp sub']))
            | n \<Rightarrow> Inl TypeError))"
  \<comment> \<open>the last element of \<open>tree'\<close> is an array, so the last branch is never taken\<close>
  by pat_completeness auto
termination
  by (relation "measure (\<lambda>(tree, obj, depth). nat depth)") auto

declare push_with_depth.simps [simp del]

text \<open>
  The loop of the opening parenthesis,
  \<^verbatim>\<open>while (tree.length == 1 && Array.isArray(tree[0])) { tree = tree[0]; depth--; }\<close>.
\<close>

fun descend :: "node list \<Rightarrow> int \<Rightarrow> node list \<times> int" where
  "descend [Grp g] depth = descend g (depth - 1)"
| "descend tree depth = (tree, depth)"

text \<open>
  The loop of the closing parenthesis,
  \<^verbatim>\<open>while (depth < 0) { tree = [tree]; depth++; }\<close>.
\<close>

function wrap :: "node list \<Rightarrow> int \<Rightarrow> node list \<times> int" where
  "wrap tree depth = (if depth < 0 then wrap [Grp tree] (depth + 1) else (tree, depth))"
  by pat_completeness auto
termination
  by (relation "measure (\<lambda>(tree, depth). nat (- depth))") auto

declare wrap.simps [simp del]

text \<open>The body of \<^verbatim>\<open>tokens.forEach\<close>, on the variables \<^verbatim>\<open>tree\<close> and \<^verbatim>\<open>depth\<close>.\<close>

definition split_step :: "node list \<times> int \<Rightarrow> token \<Rightarrow> error + node list \<times> int" where
  "split_step st token =
     (case st of (tree, depth) \<Rightarrow>
        if is_op token \<and> str token = LPAREN then Inr (descend tree (depth + 1))
        else if is_op token \<and> str token = RPAREN then Inr (wrap tree (depth - 1))
        else
          (case push_with_depth tree (Tok token) depth of
             Inl e \<Rightarrow> Inl e
           | Inr tree' \<Rightarrow> Inr (tree', depth)))"

fun split_loop :: "node list \<times> int \<Rightarrow> token list \<Rightarrow> error + node list \<times> int" where
  "split_loop st [] = Inr st"
| "split_loop st (token # tokens) =
     (case split_step st token of
        Inl e \<Rightarrow> Inl e
      | Inr st' \<Rightarrow> split_loop st' tokens)"

definition split_by_parens :: "token list \<Rightarrow> error + node list" where
  "split_by_parens tokens =
     (case split_loop ([], 0) tokens of
        Inl e \<Rightarrow> Inl e
      | Inr (tree, depth) \<Rightarrow> Inr tree)"

section \<open>Unary fuser\<close>

text \<open>
  \<^verbatim>\<open>combine_unary\<close> reverses the array and visits its elements, the last one first;
  \<^verbatim>\<open>result\<close> grows at its front. \<^verbatim>\<open>result.shift()\<close> removes and returns the first
  element of \<^verbatim>\<open>result\<close>, or returns \<^verbatim>\<open>undefined\<close> when \<^verbatim>\<open>result\<close> is empty.
  Reading \<^verbatim>\<open>node.type\<close> of an element that is \<^verbatim>\<open>undefined\<close> throws.
\<close>

fun combine_unary :: "node list \<Rightarrow> error + node list" where
  "combine_unary [] = Inr []"
| "combine_unary (node # tree) =
     (case combine_unary tree of
        Inl e \<Rightarrow> Inl e
      | Inr result \<Rightarrow>
          (case node of
             Grp g \<Rightarrow>
               (case combine_unary g of
                  Inl e \<Rightarrow> Inl e
                | Inr g' \<Rightarrow> Inr (Grp g' # result))
           | Undefined \<Rightarrow> Inl TypeError
           | Tok t \<Rightarrow>
               if is_op t \<and> str t = NOT' then
                 (case result of
                    [] \<Rightarrow> Inr [Grp [node, Undefined]]
                  | r # rs \<Rightarrow> Inr (Grp [node, r] # rs))
               else Inr (node # result)))"

section \<open>Precedence splitter\<close>

text \<open>
  \<open>process_loop tree ops i rhs\<close> is the loop
  \<^verbatim>\<open>for (let i = tree.length - 1; i >= 0; i--)\<close> of \<^verbatim>\<open>process_operators\<close>, from the
  index \<open>i\<close> on, with the value \<open>rhs\<close> of the variable \<^verbatim>\<open>rhs\<close>. A read outside the array
  gives \<^verbatim>\<open>undefined\<close>, and \<^verbatim>\<open>node.type\<close> throws when \<^verbatim>\<open>node\<close> is \<^verbatim>\<open>undefined\<close>.
\<close>

function process_loop :: "node list \<Rightarrow> jstring list \<Rightarrow> int \<Rightarrow> node list \<Rightarrow> error + node list"
  where
  "process_loop tree ops i rhs =
     (if 0 \<le> i then
        (case (if nat i < length tree then tree ! nat i else Undefined) of
           Grp g \<Rightarrow>
             (case process_loop g ops (int (length g) - 1) [] of
                Inl e \<Rightarrow> Inl e
              | Inr r \<Rightarrow> process_loop tree ops (i - 1) (Grp r # rhs))
         | Undefined \<Rightarrow> Inl TypeError
         | Tok t \<Rightarrow>
             if is_op t \<and> str t \<in> set ops then
               (let lhs = take (nat i) tree
                in case process_loop lhs ops (int (length lhs) - 1) [] of
                     Inl e \<Rightarrow> Inl e
                   | Inr l \<Rightarrow> Inr [Grp l, Tok t, Grp rhs])
             else process_loop tree ops (i - 1) (Tok t # rhs))
      else Inr rhs)"
  by pat_completeness auto
termination
proof (relation "(\<lambda>(tree, ops, i, rhs). size_list size tree) <*mlex*>
    measure (\<lambda>(tree, ops, i, rhs). nat (i + 1))", goal_cases)
  case 1
  show ?case by (simp add: wf_mlex)
next
  case (2 tree ops i rhs t lhs)
  then have "nat i < length tree"
    by (auto split: if_splits)
  then obtain y ys where "drop (nat i) tree = y # ys"
    by (cases "drop (nat i) tree") auto
  then have "size_list size (take (nat i) tree @ drop (nat i) tree) =
      size_list size (take (nat i) tree) + size_list size (y # ys)"
    by (simp only: size_list_append)
  then have "size_list size (take (nat i) tree) < size_list size tree"
    by simp
  with 2 show ?case by (auto intro: mlex_less)
next
  case (3 tree ops i rhs t)
  then show ?case by (auto intro: mlex_leq)
next
  case (4 tree ops i rhs g)
  then have "nat i < length tree" "tree ! nat i = Grp g"
    by (auto split: if_splits)
  then have "Grp g \<in> set tree"
    by (auto simp: in_set_conv_nth)
  then have "size (Grp g) \<le> size_list size tree"
    by (rule size_list_estimation') simp
  then show ?case by (auto intro: mlex_less)
next
  case (5 tree ops i rhs g r)
  then show ?case by (auto intro: mlex_leq)
qed

declare process_loop.simps [simp del]

definition process_operators :: "node list \<Rightarrow> jstring list \<Rightarrow> error + node list" where
  "process_operators tree ops = process_loop tree ops (int (length tree) - 1) []"

section \<open>Tree reformatter\<close>

text \<open>
  The value returned by \<^verbatim>\<open>reformat\<close> is a string (a leaf) or an object with the fields
  \<^verbatim>\<open>op\<close> and \<^verbatim>\<open>args\<close>.
\<close>

datatype ast = Leaf jstring | Node jstring "ast list"

text \<open>
  The two tests that \<^verbatim>\<open>reformat\<close> makes on an element, each with the evaluation
  order of the source: \<^verbatim>\<open>Array.isArray(n) || n.type != 'op'\<close> and
  \<^verbatim>\<open>!Array.isArray(n) && n.type == 'op'\<close>. The \<^verbatim>\<open>type\<close> of \<^verbatim>\<open>undefined\<close> cannot be
  read.
\<close>

fun not_op_token :: "node \<Rightarrow> error + bool" where
  "not_op_token (Grp g) = Inr True"
| "not_op_token (Tok t) = Inr (\<not> is_op t)"
| "not_op_token Undefined = Inl TypeError"

fun bare_op :: "node \<Rightarrow> error + bool" where
  "bare_op (Grp g) = Inr False"
| "bare_op (Tok t) = Inr (is_op t)"
| "bare_op Undefined = Inl TypeError"

fun node_str :: "node \<Rightarrow> jstring" where
  "node_str (Tok t) = str t"
| "node_str n = []"

fun reformat :: "node \<Rightarrow> error + ast" where
  "reformat Undefined = Inl TypeError"
| "reformat (Tok t) =
     (if is_str t then Inr (Leaf (str t)) else Inl (Thrown ''operator has no operand''))"
| "reformat (Grp []) = Inl (Thrown ''empty expression'')"
| "reformat (Grp [x]) =
     (case x of
        Grp g \<Rightarrow> reformat x
      | Tok t \<Rightarrow>
          if is_str t then Inr (Leaf (str t)) else Inl (Thrown ''operator has no operand'')
      | Undefined \<Rightarrow> Inl TypeError)"
| "reformat (Grp [x, y]) =
     (case not_op_token x of
        Inl e \<Rightarrow> Inl e
      | Inr True \<Rightarrow> Inl (Thrown ''malformed unary operator'')
      | Inr False \<Rightarrow>
          (case bare_op y of
             Inl e \<Rightarrow> Inl e
           | Inr True \<Rightarrow> Inl (Thrown ''malformed unary operator'')
           | Inr False \<Rightarrow>
               (case reformat y of
                  Inl e \<Rightarrow> Inl e
                | Inr a \<Rightarrow> Inr (Node (node_str x) [a]))))"
| "reformat (Grp [x, y, z]) =
     (case not_op_token y of
        Inl e \<Rightarrow> Inl e
      | Inr True \<Rightarrow> Inl (Thrown ''malformed binary operator'')
      | Inr False \<Rightarrow>
          (case bare_op x of
             Inl e \<Rightarrow> Inl e
           | Inr True \<Rightarrow> Inl (Thrown ''malformed binary operator'')
           | Inr False \<Rightarrow>
               (case bare_op z of
                  Inl e \<Rightarrow> Inl e
                | Inr True \<Rightarrow> Inl (Thrown ''malformed binary operator'')
                | Inr False \<Rightarrow>
                    (case reformat x of
                       Inl e \<Rightarrow> Inl e
                     | Inr a \<Rightarrow>
                         (case reformat z of
                            Inl e \<Rightarrow> Inl e
                          | Inr b \<Rightarrow> Inr (Node (node_str y) [a, b]))))))"
| "reformat (Grp tree) = Inl (Thrown ''malformed expression'')"

section \<open>The parser\<close>

text \<open>
  \<^verbatim>\<open>parse\<close> is an \<^verbatim>\<open>async\<close> function: its promise is fulfilled with the syntax tree, or
  rejected with what a stage threw.
\<close>

definition parse :: "jstring \<Rightarrow> error + ast" where
  "parse input =
     (case split_by_parens (tokenise input) of
        Inl e \<Rightarrow> Inl e
      | Inr tree0 \<Rightarrow>
     (case combine_unary tree0 of
        Inl e \<Rightarrow> Inl e
      | Inr tree1 \<Rightarrow>
     (case process_operators tree1 [IFF] of
        Inl e \<Rightarrow> Inl e
      | Inr tree2 \<Rightarrow>
     (case process_operators tree2 [CONVERSE, IMPLIES] of
        Inl e \<Rightarrow> Inl e
      | Inr tree3 \<Rightarrow>
     (case process_operators tree3 [OR] of
        Inl e \<Rightarrow> Inl e
      | Inr tree4 \<Rightarrow>
     (case process_operators tree4 [AND'] of
        Inl e \<Rightarrow> Inl e
      | Inr tree5 \<Rightarrow> reformat (Grp tree5)))))))"

section \<open>Evaluator\<close>

text \<open>
  The context \<^verbatim>\<open>ctx\<close> is a plain object that binds names to booleans (the default is
  \<^verbatim>\<open>{}\<close>), modelled by the map of its own properties. The test \<^verbatim>\<open>ast in ctx\<close> also holds
  for the names that a plain object inherits from \<^verbatim>\<open>Object.prototype\<close>, and \<^verbatim>\<open>ctx[ast]\<close>
  is then the inherited value: a function, or the prototype itself for \<^verbatim>\<open>__proto__\<close>.
\<close>

definition Object_prototype :: "jstring list" where
  "Object_prototype =
     [js ''constructor'', js ''__defineGetter__'', js ''__defineSetter__'',
      js ''hasOwnProperty'', js ''__lookupGetter__'', js ''__lookupSetter__'',
      js ''isPrototypeOf'', js ''propertyIsEnumerable'', js ''toString'', js ''valueOf'',
      js ''__proto__'', js ''toLocaleString'']"

text \<open>
  The values that \<^verbatim>\<open>evaluate\<close> returns: a boolean, or the object inherited under a name.
  An inherited object is truthy, is a different object for each name, and is loosely
  equal to no boolean (its primitive value is a string that is not a number).
\<close>

datatype jsval = JBool bool | Inherited jstring

fun truthy :: "jsval \<Rightarrow> bool" where
  "truthy (JBool b) = b"
| "truthy (Inherited name) = True"

text \<open>The operators \<^verbatim>\<open>||\<close>, \<^verbatim>\<open>&&\<close>, \<^verbatim>\<open>!\<close> and \<^verbatim>\<open>==\<close> on these values.\<close>

definition js_or :: "jsval \<Rightarrow> jsval \<Rightarrow> jsval" where
  "js_or x y = (if truthy x then x else y)"

definition js_and :: "jsval \<Rightarrow> jsval \<Rightarrow> jsval" where
  "js_and x y = (if truthy x then y else x)"

definition js_not :: "jsval \<Rightarrow> jsval" where
  "js_not x = JBool (\<not> truthy x)"

fun js_eq :: "jsval \<Rightarrow> jsval \<Rightarrow> jsval" where
  "js_eq (JBool a) (JBool b) = JBool (a = b)"
| "js_eq (Inherited m) (Inherited n) = JBool (m = n)"
| "js_eq x y = JBool False"

text \<open>
  \<^verbatim>\<open>evaluate_arg args i ctx\<close> is \<^verbatim>\<open>evaluate(ast.args[i], ctx)\<close>: when the array has no
  element \<open>i\<close> the argument is \<^verbatim>\<open>undefined\<close>, which is not an object, is looked up in
  \<^verbatim>\<open>ctx\<close> under the name \<^verbatim>\<open>undefined\<close>, and is not equal to \<^verbatim>\<open>'1'\<close>.
\<close>

type_synonym ctx = "jstring \<rightharpoonup> bool"

fun evaluate :: "ast \<Rightarrow> ctx \<Rightarrow> jsval"
  and evaluate_arg :: "ast list \<Rightarrow> nat \<Rightarrow> ctx \<Rightarrow> jsval" where
  "evaluate (Node op args) ctx =
     (if op = OR then js_or (evaluate_arg args 0 ctx) (evaluate_arg args 1 ctx)
      else if op = AND' then js_and (evaluate_arg args 0 ctx) (evaluate_arg args 1 ctx)
      else if op = NOT' then js_not (evaluate_arg args 0 ctx)
      else if op = IMPLIES then
        js_or (js_not (evaluate_arg args 0 ctx)) (evaluate_arg args 1 ctx)
      else if op = IFF then js_eq (evaluate_arg args 0 ctx) (evaluate_arg args 1 ctx)
      else if op = CONVERSE then
        js_or (js_not (evaluate_arg args 1 ctx)) (evaluate_arg args 0 ctx)
      else JBool False)"
| "evaluate (Leaf name) ctx =
     (case ctx name of
        Some b \<Rightarrow> JBool b
      | None \<Rightarrow>
          if name \<in> set Object_prototype then Inherited name
          else if name = js ''1'' then JBool True
          else JBool False)"
| "evaluate_arg [] i ctx =
     (case ctx (js ''undefined'') of
        Some b \<Rightarrow> JBool b
      | None \<Rightarrow> JBool False)"
| "evaluate_arg (a # args) 0 ctx = evaluate a ctx"
| "evaluate_arg (a # args) (Suc i) ctx = evaluate_arg args i ctx"

section \<open>Symbol collector and truth-table generator\<close>

fun find_symbols :: "ast \<Rightarrow> jstring list" where
  "find_symbols (Node op args) = concat (map find_symbols args)"
| "find_symbols (Leaf name) =
     (if name \<noteq> js ''1'' \<and> name \<noteq> js ''0'' then [name] else [])"

fun indexOf :: "'a list \<Rightarrow> 'a \<Rightarrow> int" where
  "indexOf [] x = - 1"
| "indexOf (y # ys) x =
     (if y = x then 0 else (let r = indexOf ys x in if r < 0 then - 1 else r + 1))"

text \<open>\<^verbatim>\<open>find_symbols(ast).filter((sym, i, arr) => arr.indexOf(sym) == i)\<close>\<close>

definition first_occurrences :: "'a list \<Rightarrow> 'a list" where
  "first_occurrences arr =
     map fst (filter (\<lambda>(symbol, i). indexOf arr symbol = int i) (zip arr [0..<length arr]))"

text \<open>
  A row is the object \<^verbatim>\<open>{ inputs, output }\<close> and the table is the object
  \<^verbatim>\<open>{ inputs, body }\<close>. The field \<^verbatim>\<open>output\<close> is named \<open>row_output\<close> here, and the field
  \<^verbatim>\<open>inputs\<close> of the table, the list of the symbols, \<open>table_inputs\<close>.
\<close>

record row =
  inputs :: "bool list"
  row_output :: jsval

record truth_table =
  table_inputs :: "jstring list"
  body :: "row list"

text \<open>
  The body of \<^verbatim>\<open>symbols.forEach((sym, bit) => ...)\<close>, on the variables \<^verbatim>\<open>context\<close> and
  \<^verbatim>\<open>inputs\<close>, for the counter \<open>i\<close>; \<open>symbol\<close> and \<open>bit_index\<close> are the source's \<^verbatim>\<open>sym\<close>
  and \<^verbatim>\<open>bit\<close>, and the input is \<^verbatim>\<open>(i & (1 << bit)) != 0\<close>. The assignment
  \<^verbatim>\<open>context[sym] = input\<close> binds the symbol, except for the symbol \<^verbatim>\<open>__proto__\<close>: the
  setter that the object inherits ignores a boolean and the object stays as it is.
\<close>

definition symbol_step :: "int \<Rightarrow> ctx \<times> bool list \<Rightarrow> jstring \<times> nat \<Rightarrow> ctx \<times> bool list" where
  "symbol_step i st p =
     (case st of (context, inputs') \<Rightarrow>
      case p of (symbol, bit_index) \<Rightarrow>
        (let input = (and i (push_bit bit_index 1) \<noteq> 0)
         in (if symbol = js ''__proto__'' then context else context(symbol \<mapsto> input),
             inputs' @ [input])))"

definition table_row :: "ast \<Rightarrow> jstring list \<Rightarrow> int \<Rightarrow> row" where
  "table_row ast symbols i =
     (case foldl (symbol_step i) (Map.empty, []) (zip symbols [0..<length symbols]) of
        (context, inputs') \<Rightarrow> \<lparr>inputs = inputs', row_output = evaluate ast context\<rparr>)"

definition create_truth_table :: "ast \<Rightarrow> truth_table" where
  "create_truth_table ast =
     (let symbols = first_occurrences (find_symbols ast)
      in if length symbols = 0 then
           \<lparr>table_inputs = [], body = [\<lparr>inputs = [], row_output = evaluate ast Map.empty\<rparr>]\<rparr>
         else if length symbols \<le> 4 then
           \<lparr>table_inputs = symbols,
            body = map (table_row ast symbols) [0..2 ^ length symbols - 1]\<rparr>
         else \<lparr>table_inputs = [], body = []\<rparr>)"

section \<open>Adjacent tokens\<close>

text \<open>Two adjacent tokens of the sequence are both identifiers.\<close>

fun adjacent_identifiers :: "token list \<Rightarrow> bool" where
  "adjacent_identifiers (x # y # tokens) =
     (if is_str x \<and> is_str y then True else adjacent_identifiers (y # tokens))"
| "adjacent_identifiers tokens = False"

text \<open>Two adjacent tokens of the sequence are both whitespace tokens.\<close>

fun adjacent_spaces :: "token list \<Rightarrow> bool" where
  "adjacent_spaces (x # y # tokens) =
     (if x = Sp \<and> y = Sp then True else adjacent_spaces (y # tokens))"
| "adjacent_spaces tokens = False"

text \<open>
  The sequence has an identifier, a whitespace token and an identifier in a row, and neither
  identifier is an alias of an operator.
\<close>

fun separated_identifiers :: "token list \<Rightarrow> bool" where
  "separated_identifiers (x # y # z # tokens) =
     (if is_str (resolve_alias x) \<and> y = Sp \<and> is_str (resolve_alias z) then True
      else separated_identifiers (y # z # tokens))"
| "separated_identifiers tokens = False"

section \<open>Evaluating the pipeline\<close>

lemmas symbol_defs = js_def OR_def AND'_def NOT'_def IMPLIES_def IFF_def CONVERSE_def
  LPAREN_def RPAREN_def

lemmas tokenise_defs = tokenise_def scan_def scan_char_def BASE_OPERATORS_def is_space_def
  resolve_alias_def toLowerCase_def lower_codepoint_def EXTRA_OPERATORS_def

lemmas evaluate_defs = js_or_def js_and_def js_not_def Object_prototype_def

lemmas parse_defs = parse_def split_by_parens_def split_step_def push_with_depth.simps
  wrap.simps process_operators_def process_loop.simps

lemma parse_a_or_b_and_c:
  "parse (js ''a '' @ OR @ js '' b '' @ AND' @ js '' c'') =
     Inr (Node OR [Leaf (js ''a''), Node AND' [Leaf (js ''b''), Leaf (js ''c'')]])"
  by (simp add: symbol_defs tokenise_defs parse_defs)

lemma parse_a_or_paren_b_and_c:
  "parse (js ''a '' @ OR @ js '' (b '' @ AND' @ js '' c)'') =
     Inr (Node OR [Leaf (js ''a''), Node AND' [Leaf (js ''b''), Leaf (js ''c'')]])"
  by (simp add: symbol_defs tokenise_defs parse_defs)

lemma parse_implies_chain:
  "parse (js ''a '' @ IMPLIES @ js '' b '' @ IMPLIES @ js '' c'') =
     Inr (Node IMPLIES [Node IMPLIES [Leaf (js ''a''), Leaf (js ''b'')], Leaf (js ''c'')])"
  by (simp add: symbol_defs tokenise_defs parse_defs)

lemma parse_and_a:
  "parse (AND' @ js '' a'') = Inl (Thrown ''empty expression'')"
  by (simp add: symbol_defs tokenise_defs parse_defs)

lemma parse_parens:
  "parse (js ''()'') = Inl (Thrown ''empty expression'')"
  by (simp add: symbol_defs tokenise_defs parse_defs)

lemma parse_a_and_b_word:
  "parse (js ''a and b'') = Inr (Node AND' [Leaf (js ''a''), Leaf (js ''b'')])"
  by (simp add: symbol_defs tokenise_defs parse_defs)

lemma parse_a_and_b_symbol:
  "parse (js ''a '' @ AND' @ js '' b'') = Inr (Node AND' [Leaf (js ''a''), Leaf (js ''b'')])"
  by (simp add: symbol_defs tokenise_defs parse_defs)

lemma parse_a_and_b_upper:
  "parse (js ''A AND B'') = Inr (Node AND' [Leaf (js ''A''), Leaf (js ''B'')])"
  by (simp add: symbol_defs tokenise_defs parse_defs)

lemma parse_three_and:
  "parse (js ''a '' @ AND' @ js '' b '' @ AND' @ js '' c'') =
     Inr (Node AND' [Node AND' [Leaf (js ''a''), Leaf (js ''b'')], Leaf (js ''c'')])"
  by (simp add: symbol_defs tokenise_defs parse_defs)

lemma parse_p: "parse (js ''p'') = Inr (Leaf (js ''p''))"
  by (simp add: symbol_defs tokenise_defs parse_defs)

lemma parse_1: "parse (js ''1'') = Inr (Leaf (js ''1''))"
  by (simp add: symbol_defs tokenise_defs parse_defs)

lemma parse_0: "parse (js ''0'') = Inr (Leaf (js ''0''))"
  by (simp add: symbol_defs tokenise_defs parse_defs)

lemma truth_table_three_and:
  "create_truth_table
     (Node AND' [Node AND' [Leaf (js ''a''), Leaf (js ''b'')], Leaf (js ''c'')]) =
   \<lparr>table_inputs = [js ''a'', js ''b'', js ''c''],
    body = map (\<lambda>i. \<lparr>inputs = [bit i 0, bit i 1, bit i 2],
                       row_output = JBool (bit i 0 \<and> bit i 1 \<and> bit i 2)\<rparr>) [0..7]\<rparr>"
  by (simp add: create_truth_table_def first_occurrences_def table_row_def symbol_step_def
      symbol_defs evaluate_defs upto.simps bit_iff_odd)

lemma parse_toString: "parse (js ''toString'') = Inr (Leaf (js ''toString''))"
  by (simp add: symbol_defs tokenise_defs parse_defs)

lemma leaf_examples:
  "evaluate (Leaf (js ''p'')) Map.empty = JBool False"
  "evaluate (Leaf (js ''1'')) Map.empty = JBool True"
  "evaluate (Leaf (js ''0'')) Map.empty = JBool False"
  "evaluate (Leaf name) (ctx(name \<mapsto> b)) = JBool b"
  by (simp_all add: js_def evaluate_defs)

section \<open>The scan of the tokenizer\<close>

lemma adjacent_identifiers_snoc:
  "adjacent_identifiers (tokens @ [t]) \<longleftrightarrow>
     adjacent_identifiers tokens \<or> (tokens \<noteq> [] \<and> is_str (last tokens) \<and> is_str t)"
  by (induction tokens rule: adjacent_identifiers.induct) auto

lemma adjacent_identifiers_butlast:
  "\<not> adjacent_identifiers tokens \<Longrightarrow> \<not> adjacent_identifiers (butlast tokens)"
  by (cases tokens rule: rev_cases) (auto simp: adjacent_identifiers_snoc)

lemma last_butlast_not_str:
  assumes "\<not> adjacent_identifiers tokens" and "is_str (last tokens)" and "butlast tokens \<noteq> []"
  shows "\<not> is_str (last (butlast tokens))"
proof -
  from assms(3) have "tokens \<noteq> []" by auto
  then have "tokens = butlast tokens @ [last tokens]" by simp
  then have "\<not> adjacent_identifiers (butlast tokens @ [last tokens])"
    using assms(1) by simp
  with assms(2,3) show ?thesis
    by (simp add: adjacent_identifiers_snoc)
qed

lemma scan_char_no_adjacent:
  assumes "\<not> adjacent_identifiers tokens"
  shows "\<not> adjacent_identifiers (scan_char tokens char)"
  using assms adjacent_identifiers_butlast [OF assms] last_butlast_not_str [OF assms]
  by (auto simp: scan_char_def adjacent_identifiers_snoc)

lemma scan_snoc: "scan (input @ [char]) = scan_char (scan input) char"
  by (simp add: scan_def)

lemma scan_no_adjacent: "\<not> adjacent_identifiers (scan input)"
proof (induction input rule: rev_induct)
  case Nil
  show ?case by (simp add: scan_def)
next
  case (snoc char input)
  then show ?case by (simp add: scan_snoc scan_char_no_adjacent)
qed

lemma adjacent_spaces_snoc:
  "adjacent_spaces (tokens @ [t]) \<longleftrightarrow>
     adjacent_spaces tokens \<or> (tokens \<noteq> [] \<and> last tokens = Sp \<and> t = Sp)"
  by (induction tokens rule: adjacent_spaces.induct) auto

lemma adjacent_spaces_butlast:
  "\<not> adjacent_spaces tokens \<Longrightarrow> \<not> adjacent_spaces (butlast tokens)"
  by (cases tokens rule: rev_cases) (auto simp: adjacent_spaces_snoc)

lemma scan_char_no_adjacent_spaces:
  assumes "\<not> adjacent_spaces tokens"
  shows "\<not> adjacent_spaces (scan_char tokens char)"
  using assms adjacent_spaces_butlast [OF assms]
  by (auto simp: scan_char_def adjacent_spaces_snoc)

lemma scan_no_adjacent_spaces: "\<not> adjacent_spaces (scan input)"
proof (induction input rule: rev_induct)
  case Nil
  show ?case by (simp add: scan_def)
next
  case (snoc char input)
  then show ?case by (simp add: scan_snoc scan_char_no_adjacent_spaces)
qed

section \<open>From the scan to the tokens returned\<close>

lemma is_str_resolve_alias: "is_str (resolve_alias tok) \<Longrightarrow> is_str tok"
  by (auto simp: resolve_alias_def split: if_splits)

lemma resolve_alias_not_Sp: "is_str (resolve_alias tok) \<Longrightarrow> tok \<noteq> Sp"
  by (auto dest: is_str_resolve_alias)

lemma adjacent_identifiers_Cons:
  "adjacent_identifiers tokens \<Longrightarrow> adjacent_identifiers (t # tokens)"
  by (cases tokens) auto

lemma adjacent_identifiers_head:
  "adjacent_identifiers (t # tokens) \<Longrightarrow> \<not> adjacent_identifiers tokens \<Longrightarrow>
     is_str t \<and> (\<exists>h rest. tokens = h # rest \<and> is_str h)"
  by (cases tokens) (auto split: if_splits)

lemma visible_Cons:
  "map resolve_alias (filter (\<lambda>tok. tok \<noteq> Sp) (t # tokens)) =
     (if t = Sp then map resolve_alias (filter (\<lambda>tok. tok \<noteq> Sp) tokens)
      else resolve_alias t # map resolve_alias (filter (\<lambda>tok. tok \<noteq> Sp) tokens))"
  by simp

lemma separated_then_adjacent:
  "separated_identifiers tokens \<Longrightarrow>
     adjacent_identifiers (map resolve_alias (filter (\<lambda>tok. tok \<noteq> Sp) tokens))"
proof (induction tokens rule: separated_identifiers.induct)
  case (1 x y z tokens)
  show ?case
  proof (cases "is_str (resolve_alias x) \<and> y = Sp \<and> is_str (resolve_alias z)")
    case True
    then have "x \<noteq> Sp" "z \<noteq> Sp"
      by (auto dest: resolve_alias_not_Sp)
    with True show ?thesis by simp
  next
    case False
    with 1 have "adjacent_identifiers
        (map resolve_alias (filter (\<lambda>tok. tok \<noteq> Sp) (y # z # tokens)))"
      by auto
    then show ?thesis
      unfolding visible_Cons [of x] by (simp add: adjacent_identifiers_Cons)
  qed
qed simp_all

lemma adjacent_then_separated:
  "\<not> adjacent_identifiers tokens \<Longrightarrow> \<not> adjacent_spaces tokens \<Longrightarrow>
   adjacent_identifiers (map resolve_alias (filter (\<lambda>tok. tok \<noteq> Sp) tokens)) \<Longrightarrow>
   separated_identifiers tokens"
proof (induction tokens rule: separated_identifiers.induct)
  case (1 x y z tokens)
  let ?rest = "map resolve_alias (filter (\<lambda>tok. tok \<noteq> Sp) (y # z # tokens))"
  from "1.prems"(1) have ids:
    "\<not> (is_str x \<and> is_str y)" "\<not> adjacent_identifiers (y # z # tokens)"
    by (auto split: if_splits)
  from "1.prems"(2) have sps:
    "\<not> (y = Sp \<and> z = Sp)" "\<not> adjacent_spaces (y # z # tokens)"
    by (auto split: if_splits)
  show ?case
  proof (cases "adjacent_identifiers ?rest")
    case True
    show ?thesis
    proof (cases "is_str (resolve_alias x) \<and> y = Sp \<and> is_str (resolve_alias z)")
      case pattern: True
      then show ?thesis by simp
    next
      case False
      from "1.IH" [OF False ids(2) sps(2) True] show ?thesis by simp
    qed
  next
    case False
    have adj: "adjacent_identifiers
        (map resolve_alias (filter (\<lambda>tok. tok \<noteq> Sp) (x # y # z # tokens)))"
      by (rule "1.prems"(3))
    have "x \<noteq> Sp"
    proof
      assume "x = Sp"
      with adj have "adjacent_identifiers ?rest"
        unfolding visible_Cons [of x] by simp
      with False show False by simp
    qed
    with adj have "adjacent_identifiers (resolve_alias x # ?rest)"
      unfolding visible_Cons [of x] by simp
    note head = adjacent_identifiers_head [OF this False]
    from head have x: "is_str (resolve_alias x)"
      by (rule conjunct1)
    from head have "\<exists>h rest. ?rest = h # rest \<and> is_str h"
      by (rule conjunct2)
    then obtain h rest where h: "?rest = h # rest" "is_str h"
      by (elim exE conjE)
    from x ids(1) have "\<not> is_str y"
      by (auto dest: is_str_resolve_alias)
    have "y = Sp"
    proof (rule ccontr)
      assume "y \<noteq> Sp"
      with h have "is_str (resolve_alias y)"
        unfolding visible_Cons [of y] by simp
      with \<open>\<not> is_str y\<close> show False
        by (auto dest: is_str_resolve_alias)
    qed
    with sps(1) have "z \<noteq> Sp" by simp
    with \<open>y = Sp\<close> h have "is_str (resolve_alias z)"
      unfolding visible_Cons [of y] visible_Cons [of z] by simp
    with x \<open>y = Sp\<close> show ?thesis by simp
  qed
qed (auto split: if_splits dest: is_str_resolve_alias)

section \<open>Precedence and associativity\<close>

text \<open>
  C1. For every assignment, the tree that \<open>parse\<close> returns for \<^verbatim>\<open>a \<or> b \<and> c\<close> and the
  tree that it returns for \<^verbatim>\<open>a \<or> (b \<and> c)\<close> evaluate to the same boolean, which is the
  value of a, or the conjunction of the values of b and c: the conjunction binds tighter
  than the disjunction.
\<close>

theorem and_binds_tighter_than_or:
  "\<exists>t1 t2.
     parse (js ''a '' @ OR @ js '' b '' @ AND' @ js '' c'') = Inr t1 \<and>
     parse (js ''a '' @ OR @ js '' (b '' @ AND' @ js '' c)'') = Inr t2 \<and>
     (\<forall>ctx. evaluate t1 ctx = evaluate t2 ctx \<and>
        evaluate t1 ctx =
          JBool (truthy (evaluate (Leaf (js ''a'')) ctx) \<or>
            (truthy (evaluate (Leaf (js ''b'')) ctx) \<and>
             truthy (evaluate (Leaf (js ''c'')) ctx))))"
proof (intro exI conjI allI)
  show "parse (js ''a '' @ OR @ js '' b '' @ AND' @ js '' c'') =
      Inr (Node OR [Leaf (js ''a''), Node AND' [Leaf (js ''b''), Leaf (js ''c'')]])"
    by (rule parse_a_or_b_and_c)
  show "parse (js ''a '' @ OR @ js '' (b '' @ AND' @ js '' c)'') =
      Inr (Node OR [Leaf (js ''a''), Node AND' [Leaf (js ''b''), Leaf (js ''c'')]])"
    by (rule parse_a_or_paren_b_and_c)
  show "evaluate (Node OR [Leaf (js ''a''), Node AND' [Leaf (js ''b''), Leaf (js ''c'')]]) ctx =
      evaluate (Node OR [Leaf (js ''a''), Node AND' [Leaf (js ''b''), Leaf (js ''c'')]]) ctx"
    for ctx
    by (rule refl)
  show "evaluate (Node OR [Leaf (js ''a''), Node AND' [Leaf (js ''b''), Leaf (js ''c'')]]) ctx =
      JBool (truthy (evaluate (Leaf (js ''a'')) ctx) \<or>
        (truthy (evaluate (Leaf (js ''b'')) ctx) \<and>
         truthy (evaluate (Leaf (js ''c'')) ctx)))"
    for ctx
    by (simp add: symbol_defs evaluate_defs split: option.split)
qed

text \<open>
  C2. \<open>parse\<close> groups \<^verbatim>\<open>a \<rightarrow> b \<rightarrow> c\<close> to the left: the tree is the implication whose first
  operand is the implication of the leaves a and b and whose second operand is the leaf
  c. Under the assignment of true to a, false to b and true to c it evaluates to true.
\<close>

theorem implies_associates_left:
  "parse (js ''a '' @ IMPLIES @ js '' b '' @ IMPLIES @ js '' c'') =
     Inr (Node IMPLIES [Node IMPLIES [Leaf (js ''a''), Leaf (js ''b'')], Leaf (js ''c'')]) \<and>
   evaluate (Node IMPLIES [Node IMPLIES [Leaf (js ''a''), Leaf (js ''b'')], Leaf (js ''c'')])
     [js ''a'' \<mapsto> True, js ''b'' \<mapsto> False, js ''c'' \<mapsto> True] = JBool True"
proof
  show "parse (js ''a '' @ IMPLIES @ js '' b '' @ IMPLIES @ js '' c'') =
      Inr (Node IMPLIES [Node IMPLIES [Leaf (js ''a''), Leaf (js ''b'')], Leaf (js ''c'')])"
    by (rule parse_implies_chain)
  show "evaluate (Node IMPLIES [Node IMPLIES [Leaf (js ''a''), Leaf (js ''b'')], Leaf (js ''c'')])
      [js ''a'' \<mapsto> True, js ''b'' \<mapsto> False, js ''c'' \<mapsto> True] = JBool True"
    by (simp add: symbol_defs evaluate_defs)
qed

section \<open>Failures of the parser\<close>

text \<open>
  C3. The parser fails in ways other than the five messages of the tree reformatter. A
  negation with nothing to its right is fused with \<^verbatim>\<open>undefined\<close>, and the first pass of
  the precedence splitter reads the \<^verbatim>\<open>type\<close> of that element: \<open>parse\<close> fails with a
  \<^verbatim>\<open>TypeError\<close> on \<^verbatim>\<open>\<not>\<close> and on \<^verbatim>\<open>a \<not>\<close>. On \<^verbatim>\<open>))(a\<close> it fails with the message of
  the grouper.
\<close>

theorem parse_fails_outside_the_reformatter:
  "parse NOT' = Inl TypeError \<and>
   parse (js ''a '' @ NOT') = Inl TypeError \<and>
   parse (js ''))(a'') = Inl (Thrown ''cannot push with negative depth'')"
  by (simp add: symbol_defs tokenise_defs parse_defs)

text \<open>
  C4. For \<^verbatim>\<open>\<and> a\<close> the splitter makes the empty group the left operand, and \<open>parse\<close>
  fails with the message \<^verbatim>\<open>empty expression\<close>, not with \<^verbatim>\<open>malformed binary operator\<close>;
  for \<^verbatim>\<open>()\<close> it fails with \<^verbatim>\<open>empty expression\<close> too.
\<close>

theorem missing_operand_is_empty_expression:
  "parse (AND' @ js '' a'') = Inl (Thrown ''empty expression'') \<and>
   parse (js ''()'') = Inl (Thrown ''empty expression'')"
  using parse_and_a parse_parens by (rule conjI)

text \<open>The claim as stated fails: the message for \<^verbatim>\<open>\<and> a\<close> is another one.\<close>

theorem missing_operand_not_malformed_binary:
  "parse (AND' @ js '' a'') \<noteq> Inl (Thrown ''malformed binary operator'')"
  by (simp add: parse_and_a)

text \<open>
  C8. The grouper fails on \<^verbatim>\<open>))(a\<close> and on \<^verbatim>\<open>((a))(b)\<close>: the loop of the opening
  parenthesis descends through every singleton level and leaves the depth at \<open>- 1\<close>, so
  that the next token is pushed with a negative depth.
\<close>

theorem grouper_pushes_with_negative_depth:
  "split_loop ([], 0) (tokenise (js ''))('')) = Inr ([], - 1) \<and>
   split_by_parens (tokenise (js ''))(a'')) =
     Inl (Thrown ''cannot push with negative depth'') \<and>
   split_by_parens (tokenise (js ''((a))(b)'')) =
     Inl (Thrown ''cannot push with negative depth'')"
  by (simp add: symbol_defs tokenise_defs parse_defs)

section \<open>Aliases and identifiers\<close>

text \<open>
  C5. \<^verbatim>\<open>a and b\<close> and \<^verbatim>\<open>a \<and> b\<close> parse to the same tree. The identifiers keep their case:
  \<^verbatim>\<open>A AND B\<close> parses to the conjunction of the leaves A and B, which evaluates like the
  other two under every assignment that treats A like a and B like b.
\<close>

theorem alias_equivalence:
  "parse (js ''a and b'') = Inr (Node AND' [Leaf (js ''a''), Leaf (js ''b'')]) \<and>
   parse (js ''a '' @ AND' @ js '' b'') = Inr (Node AND' [Leaf (js ''a''), Leaf (js ''b'')]) \<and>
   parse (js ''A AND B'') = Inr (Node AND' [Leaf (js ''A''), Leaf (js ''B'')]) \<and>
   (ctx (js ''A'') = ctx (js ''a'') \<and> ctx (js ''B'') = ctx (js ''b'') \<longrightarrow>
      evaluate (Node AND' [Leaf (js ''A''), Leaf (js ''B'')]) ctx =
      evaluate (Node AND' [Leaf (js ''a''), Leaf (js ''b'')]) ctx)"
proof (intro conjI impI)
  assume "ctx (js ''A'') = ctx (js ''a'') \<and> ctx (js ''B'') = ctx (js ''b'')"
  then show "evaluate (Node AND' [Leaf (js ''A''), Leaf (js ''B'')]) ctx =
      evaluate (Node AND' [Leaf (js ''a''), Leaf (js ''b'')]) ctx"
    by (simp add: symbol_defs evaluate_defs)
qed (rule parse_a_and_b_word parse_a_and_b_symbol parse_a_and_b_upper)+

theorem alias_equivalence_witness:
  "evaluate (Node AND' [Leaf (js ''A''), Leaf (js ''B'')])
     [js ''a'' \<mapsto> True, js ''A'' \<mapsto> True, js ''b'' \<mapsto> False, js ''B'' \<mapsto> False] =
   evaluate (Node AND' [Leaf (js ''a''), Leaf (js ''b'')])
     [js ''a'' \<mapsto> True, js ''A'' \<mapsto> True, js ''b'' \<mapsto> False, js ''B'' \<mapsto> False]"
proof -
  let ?ctx = "[js ''a'' \<mapsto> True, js ''A'' \<mapsto> True, js ''b'' \<mapsto> False, js ''B'' \<mapsto> False]"
  have h: "?ctx (js ''A'') = ?ctx (js ''a'') \<and> ?ctx (js ''B'') = ?ctx (js ''b'')"
    by (simp add: js_def)
  from alias_equivalence [of ?ctx] have
    "?ctx (js ''A'') = ?ctx (js ''a'') \<and> ?ctx (js ''B'') = ?ctx (js ''b'') \<longrightarrow>
      evaluate (Node AND' [Leaf (js ''A''), Leaf (js ''B'')]) ?ctx =
      evaluate (Node AND' [Leaf (js ''a''), Leaf (js ''b'')]) ?ctx"
    by (elim conjE)
  then show ?thesis using h by (rule mp)
qed

text \<open>
  The claim as stated fails: under the assignment of true to a and to b, the tree of
  \<^verbatim>\<open>a and b\<close> is true and the tree of \<^verbatim>\<open>A AND B\<close> is false.
\<close>

theorem alias_case_counterexample:
  "parse (js ''a and b'') = Inr (Node AND' [Leaf (js ''a''), Leaf (js ''b'')]) \<and>
   parse (js ''A AND B'') = Inr (Node AND' [Leaf (js ''A''), Leaf (js ''B'')]) \<and>
   evaluate (Node AND' [Leaf (js ''a''), Leaf (js ''b'')])
     [js ''a'' \<mapsto> True, js ''b'' \<mapsto> True] = JBool True \<and>
   evaluate (Node AND' [Leaf (js ''A''), Leaf (js ''B'')])
     [js ''a'' \<mapsto> True, js ''b'' \<mapsto> True] = JBool False"
  by (simp add: parse_a_and_b_word parse_a_and_b_upper) (simp add: symbol_defs evaluate_defs)

text \<open>
  C9. In the sequence that the scan builds, before the whitespace tokens are removed, no two
  adjacent tokens are both identifiers: consecutive identifier characters are merged. In
  the sequence that \<open>tokenise\<close> returns, two adjacent tokens are both identifiers exactly
  when the scan has an identifier, a whitespace token and an identifier in a row, neither
  identifier being an alias of an operator.
\<close>

theorem identifiers_merged:
  "\<not> adjacent_identifiers (scan input) \<and>
   (adjacent_identifiers (tokenise input) \<longleftrightarrow> separated_identifiers (scan input))"
proof
  show "\<not> adjacent_identifiers (scan input)" by (rule scan_no_adjacent)
next
  show "adjacent_identifiers (tokenise input) \<longleftrightarrow> separated_identifiers (scan input)"
    unfolding tokenise_def
  proof
    assume "adjacent_identifiers
        (map resolve_alias (filter (\<lambda>tok. tok \<noteq> Sp) (scan input)))"
    with scan_no_adjacent scan_no_adjacent_spaces
    show "separated_identifiers (scan input)"
      by (rule adjacent_then_separated)
  next
    assume "separated_identifiers (scan input)"
    then show "adjacent_identifiers
        (map resolve_alias (filter (\<lambda>tok. tok \<noteq> Sp) (scan input)))"
      by (rule separated_then_adjacent)
  qed
qed

text \<open>
  Whitespace between an identifier and an operator, or between an identifier and an alias,
  leaves no two identifiers side by side: \<^verbatim>\<open>a \<and> b\<close> and \<^verbatim>\<open>a or\<close>.
\<close>

theorem identifiers_merged_witness:
  "\<not> adjacent_identifiers (tokenise (js ''a '' @ AND' @ js '' b'')) \<and>
   \<not> adjacent_identifiers (tokenise (js ''a or''))"
proof -
  have h1: "\<not> separated_identifiers (scan (js ''a '' @ AND' @ js '' b''))"
    by (simp add: symbol_defs tokenise_defs)
  have h2: "\<not> separated_identifiers (scan (js ''a or''))"
    by (simp add: symbol_defs tokenise_defs)
  from identifiers_merged [of "js ''a '' @ AND' @ js '' b''"] identifiers_merged [of "js ''a or''"]
    h1 h2
  show ?thesis by blast
qed

text \<open>
  The claim as stated fails: whitespace separates two identifiers without merging them, and
  \<open>tokenise\<close> returns two adjacent identifier tokens for \<^verbatim>\<open>a b\<close>.
\<close>

theorem identifiers_apart_counterexample:
  "tokenise (js ''a b'') = [Str (js ''a''), Str (js ''b'')] \<and>
   adjacent_identifiers (tokenise (js ''a b''))"
  by (simp add: symbol_defs tokenise_defs)

section \<open>The evaluator and the truth table\<close>

text \<open>
  C6. An unbound symbol does not always evaluate to false. \<open>parse\<close> returns the leaf
  \<^verbatim>\<open>toString\<close> for the input \<^verbatim>\<open>toString\<close>; the empty assignment does not bind the name, but
  the test \<^verbatim>\<open>ast in ctx\<close> finds it in the prototype of the object, and \<open>evaluate\<close> returns
  the inherited function, which is no boolean and is truthy.
\<close>

theorem unbound_inherited_name_is_truthy:
  "parse (js ''toString'') = Inr (Leaf (js ''toString'')) \<and>
   evaluate (Leaf (js ''toString'')) Map.empty = Inherited (js ''toString'') \<and>
   evaluate (Leaf (js ''toString'')) Map.empty \<noteq> JBool False \<and>
   truthy (evaluate (Leaf (js ''toString'')) Map.empty)"
  by (simp add: parse_toString) (simp add: js_def evaluate_defs)

text \<open>
  C7. The truth table of the tree of \<^verbatim>\<open>a \<and> b \<and> c\<close> has the header a, b, c and eight rows,
  one for each counter from 0 to 7 in increasing order; the inputs of the row of the counter
  \<open>i\<close> are the bits 0, 1 and 2 of \<open>i\<close>, and its output is their conjunction.
\<close>

theorem truth_table_of_three_conjuncts:
  "\<exists>t. parse (js ''a '' @ AND' @ js '' b '' @ AND' @ js '' c'') = Inr t \<and>
     table_inputs (create_truth_table t) = [js ''a'', js ''b'', js ''c''] \<and>
     length (table_inputs (create_truth_table t)) = 3 \<and>
     length (body (create_truth_table t)) = 8 \<and>
     body (create_truth_table t) =
       map (\<lambda>i. \<lparr>inputs = [bit i 0, bit i 1, bit i 2],
                  row_output = JBool (bit i 0 \<and> bit i 1 \<and> bit i 2)\<rparr>) [0..7]"
proof (intro exI conjI)
  show "parse (js ''a '' @ AND' @ js '' b '' @ AND' @ js '' c'') =
      Inr (Node AND' [Node AND' [Leaf (js ''a''), Leaf (js ''b'')], Leaf (js ''c'')])"
    by (rule parse_three_and)
qed (simp_all only: truth_table_three_and truth_table.simps list.size length_map, simp_all)

text \<open>
  C10. An operator node whose operator is none of the six connectives evaluates to false,
  whatever its operands and the assignment are.
\<close>

theorem evaluate_unknown_operator:
  "op \<notin> set [OR, AND', NOT', IMPLIES, IFF, CONVERSE] \<Longrightarrow>
     evaluate (Node op args) ctx = JBool False"
  by simp

theorem evaluate_unknown_operator_witness:
  "js ''xor'' \<notin> set [OR, AND', NOT', IMPLIES, IFF, CONVERSE] \<and>
   evaluate (Node (js ''xor'') [Leaf (js ''a''), Leaf (js ''b'')])
     [js ''a'' \<mapsto> True, js ''b'' \<mapsto> True] = JBool False"
proof -
  have h: "js ''xor'' \<notin> set [OR, AND', NOT', IMPLIES, IFF, CONVERSE]"
    by (simp add: symbol_defs)
  from h evaluate_unknown_operator [OF h] show ?thesis by (rule conjI)
qed

end
